theory Spec2Isabelle
  imports Complex_Main
begin

section \<open>Customer churn prediction: the inference pipeline of \<open>utils.py\<close>\<close>

text \<open>
  The development embeds \<open>config.py\<close> (artifact paths, threshold), the class
  \<open>ModelLoader\<close> and the function \<open>get_model_loader\<close> of \<open>utils.py\<close>, and the
  control flow of \<open>main\<close> in \<open>app.py\<close> around loading and predicting.

  Python objects are references: a \<open>ModelLoader\<close> lives in a heap and is named by its
  address, so that "the same instance" and "not mutated" are statements about the heap.
  The observable effects of the code are kept in the process state: the files it opens,
  the lines it logs, the objects it allocates and the module-level variable
  \<open>_model_loader\<close>.

  Numbers are real numbers. The floating-point rounding of the scaler and of the network
  is outside this model; no theorem below depends on the value of a rounded result.
\<close>

subsection \<open>\<open>config.py\<close>\<close>

datatype path = MODEL_PATH | LABEL_ENCODER_GENDER_PATH | ONE_HOT_ENCODER_PATH | SCALER_PATH

definition CHURN_THRESHOLD :: real where
  "CHURN_THRESHOLD = 1 / 2"

subsection \<open>Exceptions\<close>

text \<open>
  Every exception the code can meet is a value. The first three arise while loading
  (\<open>open\<close>, \<open>pickle.load\<close>, \<open>load_model\<close>), \<open>UnseenCategory\<close> is raised by an
  encoder, \<open>ShapeMismatch\<close> by the scaler or the network, and \<open>AttributeError\<close> by a
  method call on a field that is still \<open>None\<close>.
\<close>

datatype error =
    FileNotFoundError path
  | PermissionError path
  | DeserializationError path
  | UnseenCategory string
  | ShapeMismatch nat nat
  | AttributeError
  | DanglingReference

datatype error_class = LoadError | EncodingError | InferenceError | OtherError

text \<open>Modelled from the spec: the error taxonomy of its section 7, which the code does
  not declare (it raises the library's own exceptions).\<close>

fun classify :: "error \<Rightarrow> error_class" where
  "classify (FileNotFoundError p) = LoadError"
| "classify (PermissionError p) = LoadError"
| "classify (DeserializationError p) = LoadError"
| "classify (UnseenCategory v) = EncodingError"
| "classify (ShapeMismatch n k) = InferenceError"
| "classify AttributeError = OtherError"
| "classify DanglingReference = OtherError"

subsection \<open>The four artifacts\<close>

text \<open>
  The artifacts are objects of scikit-learn and Keras, read from files that are not part
  of the sources. Each is represented by the fitted attributes the code and the spec
  name, and its operations follow the contract the spec gives for it.
\<close>

record LabelEncoder =
  classes :: "string list"

record OneHotEncoder =
  categories :: "string list"

record StandardScaler =
  mean :: "real list"
  scale :: "real list"

record Classifier =
  input_width :: nat
  forward :: "real list \<Rightarrow> real"

fun index_of :: "'a \<Rightarrow> 'a list \<Rightarrow> nat" where
  "index_of v [] = 0"
| "index_of v (c # cs) = (if c = v then 0 else Suc (index_of v cs))"

text \<open>Modelled from the spec: the gender label encoder's \<open>transform\<close> (the pickled
  object is missing). It gives the value's integer class index in the ordered category
  list and fails on a value outside the fitted set.\<close>

definition LabelEncoder_transform :: "LabelEncoder \<Rightarrow> string \<Rightarrow> error + nat" where
  "LabelEncoder_transform enc v =
     (if v \<in> set (classes enc) then Inr (index_of v (classes enc))
      else Inl (UnseenCategory v))"

text \<open>Modelled from the spec: the geography one-hot encoder's \<open>transform\<close> (the pickled
  object is missing). It gives one binary column per fitted category, in the fitted
  order, and fails on a value outside the fitted set.\<close>

definition OneHotEncoder_transform :: "OneHotEncoder \<Rightarrow> string \<Rightarrow> error + real list" where
  "OneHotEncoder_transform enc v =
     (if v \<in> set (categories enc)
      then Inr (map (\<lambda>c. if c = v then 1 else 0) (categories enc))
      else Inl (UnseenCategory v))"

text \<open>Modelled from the spec: the one-hot encoder's \<open>get_feature_names_out\<close> (the
  pickled object is missing): the columns are named by category, after the name of the
  input feature.\<close>

definition get_feature_names_out :: "OneHotEncoder \<Rightarrow> string \<Rightarrow> string list" where
  "get_feature_names_out enc feature = map (\<lambda>c. feature @ ''_'' @ c) (categories enc)"

text \<open>Modelled from the spec: the scaler's \<open>transform\<close> (the pickled object is
  missing): subtract the per-column mean and divide by the per-column standard deviation
  captured at fit time. A row whose width is not the fitted width is a shape mismatch.\<close>

definition StandardScaler_transform :: "StandardScaler \<Rightarrow> real list \<Rightarrow> error + real list" where
  "StandardScaler_transform sc xs =
     (if length xs = length (mean sc) \<and> length (scale sc) = length (mean sc)
      then Inr (map (\<lambda>(x, m, s). (x - m) / s) (zip xs (zip (mean sc) (scale sc))))
      else Inl (ShapeMismatch (length xs) (length (mean sc))))"

text \<open>Modelled from the spec: the classifier's \<open>predict\<close> on a single row (the network
  file is missing): one scalar output, and a shape mismatch when the row's width is not
  the expected input width.\<close>

definition Classifier_predict :: "Classifier \<Rightarrow> real list \<Rightarrow> error + real" where
  "Classifier_predict m xs =
     (if length xs = input_width m then Inr (forward m xs)
      else Inl (ShapeMismatch (length xs) (input_width m)))"

subsection \<open>Input record, loader object, process state\<close>

text \<open>The dictionary \<open>input_data\<close> that \<open>main\<close> builds: ten fixed keys. The two flags
  are the integers 1 and 0 that \<open>main\<close> derives from the radio buttons.\<close>

record RawCustomerRecord =
  geography :: string
  gender :: string
  age :: int
  credit_score :: int
  balance :: real
  estimated_salary :: real
  tenure :: int
  num_of_products :: int
  has_cr_card :: int
  is_active_member :: int

text \<open>\<open>ModelLoader.__init__\<close> sets the four fields to \<open>None\<close> before loading, so each
  field is optional.\<close>

record ModelLoader =
  model :: "Classifier option"
  label_encoder_gender :: "LabelEncoder option"
  one_hot_encoder :: "OneHotEncoder option"
  scaler :: "StandardScaler option"

type_synonym DataFrame = "(string \<times> real) list"

type_synonym PredictionResult = "real \<times> bool"

datatype 'a stored_file = Missing | Unreadable | Corrupt | Stored 'a

record disk =
  model_file :: "Classifier stored_file"
  gender_file :: "LabelEncoder stored_file"
  ohe_file :: "OneHotEncoder stored_file"
  scaler_file :: "StandardScaler stored_file"

datatype log_entry = Info string | Error string error

type_synonym addr = nat

text \<open>\<open>g_model_loader\<close> is the module-level variable \<open>_model_loader\<close>.\<close>

record process =
  files :: disk
  opened :: "path list"
  logged :: "log_entry list"
  heap :: "ModelLoader list"
  g_model_loader :: "addr option"

definition initial_process :: "disk \<Rightarrow> process" where
  "initial_process d =
     \<lparr>files = d, opened = [], logged = [], heap = [], g_model_loader = None\<rparr>"

definition deref :: "process \<Rightarrow> addr \<Rightarrow> ModelLoader option" where
  "deref w a = (if a < length (heap w) then Some (heap w ! a) else None)"

definition logger :: "log_entry \<Rightarrow> process \<Rightarrow> process" where
  "logger l w = w\<lparr>logged := logged w @ [l]\<rparr>"

subsection \<open>\<open>ModelLoader._load_all\<close> and \<open>ModelLoader.__init__\<close>\<close>

text \<open>Opening and deserializing one artifact file: the attempt is recorded, and the
  state of the file decides the outcome.\<close>

fun read_file :: "path \<Rightarrow> 'a stored_file \<Rightarrow> error + 'a" where
  "read_file p Missing = Inl (FileNotFoundError p)"
| "read_file p Unreadable = Inl (PermissionError p)"
| "read_file p Corrupt = Inl (DeserializationError p)"
| "read_file p (Stored x) = Inr x"

definition open_file :: "path \<Rightarrow> process \<Rightarrow> process" where
  "open_file p w = w\<lparr>opened := opened w @ [p]\<rparr>"

definition set_field :: "addr \<Rightarrow> (ModelLoader \<Rightarrow> ModelLoader) \<Rightarrow> process \<Rightarrow> process" where
  "set_field a f w = w\<lparr>heap := (heap w)[a := f (heap w ! a)]\<rparr>"

text \<open>The two \<open>except\<close> clauses of \<open>_load_all\<close>: each logs and raises again; they differ
  in the logged text only.\<close>

definition load_failed :: "error \<Rightarrow> process \<Rightarrow> error option \<times> process" where
  "load_failed e w =
     (Some e,
      logger (Error (case e of FileNotFoundError p \<Rightarrow> ''Required file not found''
                              | _ \<Rightarrow> ''Error loading model/preprocessors'') e) w)"

text \<open>\<open>_load_all\<close> on the object at address \<open>a\<close>: the result is the exception raised,
  if any, and the state with the fields assigned so far.\<close>

definition load_all :: "addr \<Rightarrow> process \<Rightarrow> error option \<times> process" where
  "load_all a w =
     (let w0 = logger (Info ''Loading model and preprocessors...'') w;
          w1 = open_file MODEL_PATH w0
      in case read_file MODEL_PATH (model_file (files w1)) of
           Inl e \<Rightarrow> load_failed e w1
         | Inr m \<Rightarrow>
      (let w2 = open_file LABEL_ENCODER_GENDER_PATH
                  (set_field a (\<lambda>self. self\<lparr>model := Some m\<rparr>) w1)
       in case read_file LABEL_ENCODER_GENDER_PATH (gender_file (files w2)) of
            Inl e \<Rightarrow> load_failed e w2
          | Inr le \<Rightarrow>
      (let w3 = open_file ONE_HOT_ENCODER_PATH
                  (set_field a (\<lambda>self. self\<lparr>label_encoder_gender := Some le\<rparr>) w2)
       in case read_file ONE_HOT_ENCODER_PATH (ohe_file (files w3)) of
            Inl e \<Rightarrow> load_failed e w3
          | Inr oh \<Rightarrow>
      (let w4 = open_file SCALER_PATH
                  (set_field a (\<lambda>self. self\<lparr>one_hot_encoder := Some oh\<rparr>) w3)
       in case read_file SCALER_PATH (scaler_file (files w4)) of
            Inl e \<Rightarrow> load_failed e w4
          | Inr sc \<Rightarrow>
              (None, logger (Info ''Successfully loaded all components'')
                       (set_field a (\<lambda>self. self\<lparr>scaler := Some sc\<rparr>) w4))))))"

definition ModelLoader_init :: "process \<Rightarrow> (error + addr) \<times> process" where
  "ModelLoader_init w =
     (let a = length (heap w);
          w1 = w\<lparr>heap := heap w @ [\<lparr>model = None, label_encoder_gender = None,
                                     one_hot_encoder = None, scaler = None\<rparr>]\<rparr>
      in case load_all a w1 of
           (Some e, w2) \<Rightarrow> (Inl e, w2)
         | (None, w2) \<Rightarrow> (Inr a, w2))"

subsection \<open>\<open>get_model_loader\<close>\<close>

definition get_model_loader :: "process \<Rightarrow> (error + addr) \<times> process" where
  "get_model_loader w =
     (case g_model_loader w of
        None \<Rightarrow>
          (case ModelLoader_init w of
             (Inl e, w1) \<Rightarrow> (Inl e, w1)
           | (Inr a, w1) \<Rightarrow> (Inr a, w1\<lparr>g_model_loader := Some a\<rparr>))
      | Some a \<Rightarrow> (Inr a, w))"

subsection \<open>\<open>ModelLoader.predict\<close>\<close>

text \<open>Lines 70 to 90: the data frame after the concatenation, as its named columns in
  order. The gender code is computed inside the dictionary display, before the
  geography is encoded.\<close>

definition predict_df :: "ModelLoader \<Rightarrow> RawCustomerRecord \<Rightarrow> error + DataFrame" where
  "predict_df self input_data =
     (case label_encoder_gender self of
        None \<Rightarrow> Inl AttributeError
      | Some le \<Rightarrow>
     (case LabelEncoder_transform le (gender input_data) of
        Inl e \<Rightarrow> Inl e
      | Inr g \<Rightarrow>
     (case one_hot_encoder self of
        None \<Rightarrow> Inl AttributeError
      | Some oh \<Rightarrow>
     (case OneHotEncoder_transform oh (geography input_data) of
        Inl e \<Rightarrow> Inl e
      | Inr geo_encoded \<Rightarrow>
          Inr ([(''CreditScore'', of_int (credit_score input_data)),
                (''Gender'', of_nat g),
                (''Age'', of_int (age input_data)),
                (''Tenure'', of_int (tenure input_data)),
                (''Balance'', balance input_data),
                (''NumOfProducts'', of_int (num_of_products input_data)),
                (''HasCrCard'', of_int (has_cr_card input_data)),
                (''IsActiveMember'', of_int (is_active_member input_data)),
                (''EstimatedSalary'', estimated_salary input_data)]
               @ zip (get_feature_names_out oh ''Geography'') geo_encoded)))))"

text \<open>Line 93: the scaled row.\<close>

definition predict_scaled :: "ModelLoader \<Rightarrow> RawCustomerRecord \<Rightarrow> error + real list" where
  "predict_scaled self input_data =
     (case predict_df self input_data of
        Inl e \<Rightarrow> Inl e
      | Inr df \<Rightarrow>
     (case scaler self of
        None \<Rightarrow> Inl AttributeError
      | Some sc \<Rightarrow> StandardScaler_transform sc (map snd df)))"

text \<open>Lines 69 to 100: the body of the \<open>try\<close>.\<close>

definition predict_body :: "ModelLoader \<Rightarrow> RawCustomerRecord \<Rightarrow> error + PredictionResult" where
  "predict_body self input_data =
     (case predict_scaled self input_data of
        Inl e \<Rightarrow> Inl e
      | Inr df_scaled \<Rightarrow>
     (case model self of
        None \<Rightarrow> Inl AttributeError
      | Some m \<Rightarrow>
     (case Classifier_predict m df_scaled of
        Inl e \<Rightarrow> Inl e
      | Inr probability \<Rightarrow> Inr (probability, 1 / 2 < probability))))"

text \<open>The whole method, on the object at address \<open>self\<close>: the \<open>except\<close> clause logs the
  exception and raises it again. An address that names no object cannot occur in
  Python; the model reports it as \<open>DanglingReference\<close>.\<close>

definition predict :: "addr \<Rightarrow> RawCustomerRecord \<Rightarrow> process \<Rightarrow> (error + PredictionResult) \<times> process" where
  "predict self input_data w =
     (case deref w self of
        None \<Rightarrow> (Inl DanglingReference, w)
      | Some obj \<Rightarrow>
     (case predict_body obj input_data of
        Inl e \<Rightarrow> (Inl e, logger (Error ''Error during prediction'' e) w)
      | Inr res \<Rightarrow> (Inr res, w)))"

subsection \<open>\<open>app.py\<close>: loading and predicting in \<open>main\<close>\<close>

text \<open>One run of the script. \<open>load_model\<close> reports a loading failure and stops the
  script (\<open>st.stop\<close>); the prediction runs only when the button is pressed, and its
  failure is reported to the user. Rendering is not modelled.\<close>

datatype outcome = Stopped error | Idle | Displayed real bool | PredictionFailed error

definition load_model :: "process \<Rightarrow> (error + addr) \<times> process" where
  "load_model w = get_model_loader w"

definition main :: "bool \<Rightarrow> RawCustomerRecord \<Rightarrow> process \<Rightarrow> outcome \<times> process" where
  "main pressed input_data w =
     (case load_model w of
        (Inl e, w1) \<Rightarrow> (Stopped e, w1)
      | (Inr model_loader, w1) \<Rightarrow>
          (if pressed
           then (case predict model_loader input_data w1 of
                   (Inl e, w2) \<Rightarrow> (PredictionFailed e, w2)
                 | (Inr (probability, will_churn), w2) \<Rightarrow> (Displayed probability will_churn, w2))
           else (Idle, w1)))"

text \<open>A process history: calls of the two entry points, and changes of the disk made by
  the environment between them.\<close>

datatype call = GetModelLoader | Predict addr RawCustomerRecord | SetDisk disk

fun exec :: "call \<Rightarrow> process \<Rightarrow> process" where
  "exec GetModelLoader w = snd (get_model_loader w)"
| "exec (Predict a r) w = snd (predict a r w)"
| "exec (SetDisk d) w = w\<lparr>files := d\<rparr>"

fun run :: "call list \<Rightarrow> process \<Rightarrow> process" where
  "run [] w = w"
| "run (c # cs) w = run cs (exec c w)"

text \<open>An object is fully loaded when none of its four fields is \<open>None\<close>.\<close>

definition fully_loaded :: "ModelLoader \<Rightarrow> bool" where
  "fully_loaded self =
     (model self \<noteq> None \<and> label_encoder_gender self \<noteq> None \<and>
      one_hot_encoder self \<noteq> None \<and> scaler self \<noteq> None)"

text \<open>An artifact file is unavailable when it is missing, unreadable, or does not
  deserialize.\<close>

definition artifact_unavailable :: "'a stored_file \<Rightarrow> bool" where
  "artifact_unavailable f = (case f of Stored x \<Rightarrow> False | _ \<Rightarrow> True)"

text \<open>The module-level variable is either unset or names a fully loaded object.\<close>

definition cache_complete :: "process \<Rightarrow> bool" where
  "cache_complete w =
     (case g_model_loader w of
        None \<Rightarrow> True
      | Some a \<Rightarrow> (case deref w a of None \<Rightarrow> False | Some L \<Rightarrow> fully_loaded L))"

subsection \<open>A concrete artifact store\<close>

text \<open>The example scenario of the spec: a French male customer aged 40, against
  encoders fitted on two genders and three countries, a scaler of width twelve and a
  classifier that answers one half.\<close>

definition example_classifier :: Classifier where
  "example_classifier = \<lparr>input_width = 12, forward = (\<lambda>xs. 1 / 2)\<rparr>"

definition example_gender_encoder :: LabelEncoder where
  "example_gender_encoder = \<lparr>classes = [''Female'', ''Male'']\<rparr>"

definition example_geo_encoder :: OneHotEncoder where
  "example_geo_encoder = \<lparr>categories = [''France'', ''Germany'', ''Spain'']\<rparr>"

definition example_scaler :: StandardScaler where
  "example_scaler =
     \<lparr>mean = [650, 0, 40, 5, 0, 1, 0, 0, 50000, 0, 0, 0],
      scale = [100, 1, 10, 5, 1, 1, 1, 1, 10000, 1, 1, 1]\<rparr>"

definition example_loader :: ModelLoader where
  "example_loader =
     \<lparr>model = Some example_classifier,
      label_encoder_gender = Some example_gender_encoder,
      one_hot_encoder = Some example_geo_encoder,
      scaler = Some example_scaler\<rparr>"

definition example_disk :: disk where
  "example_disk =
     \<lparr>model_file = Stored example_classifier,
      gender_file = Stored example_gender_encoder,
      ohe_file = Stored example_geo_encoder,
      scaler_file = Stored example_scaler\<rparr>"

definition example_process :: process where
  "example_process =
     \<lparr>files = example_disk, opened = [], logged = [], heap = [example_loader],
      g_model_loader = Some 0\<rparr>"

definition example_record :: RawCustomerRecord where
  "example_record =
     \<lparr>geography = ''France'', gender = ''Male'', age = 40, credit_score = 650,
      balance = 0, estimated_salary = 50000, tenure = 5, num_of_products = 1,
      has_cr_card = 1, is_active_member = 1\<rparr>"

section \<open>Properties\<close>

subsection \<open>Auxiliary facts\<close>

lemma zip_map_same: "zip (map f xs) (map g xs) = map (\<lambda>c. (f c, g c)) xs"
  by (induction xs) simp_all

lemma predict_df_in_set:
  assumes "label_encoder_gender L = Some le" and "one_hot_encoder L = Some oh"
    and "gender r \<in> set (classes le)" and "geography r \<in> set (categories oh)"
  shows "predict_df L r =
     Inr ([(''CreditScore'', of_int (credit_score r)),
           (''Gender'', of_nat (index_of (gender r) (classes le))),
           (''Age'', of_int (age r)),
           (''Tenure'', of_int (tenure r)),
           (''Balance'', balance r),
           (''NumOfProducts'', of_int (num_of_products r)),
           (''HasCrCard'', of_int (has_cr_card r)),
           (''IsActiveMember'', of_int (is_active_member r)),
           (''EstimatedSalary'', estimated_salary r)]
          @ map (\<lambda>c. (''Geography_'' @ c, if c = geography r then 1 else 0)) (categories oh))"
  using assms
  by (simp add: predict_df_def LabelEncoder_transform_def OneHotEncoder_transform_def
      get_feature_names_out_def zip_map_same)

lemma predict_df_unseen:
  assumes "label_encoder_gender L = Some le" and "one_hot_encoder L = Some oh"
    and "gender r \<notin> set (classes le) \<or> geography r \<notin> set (categories oh)"
  shows "predict_df L r =
     Inl (UnseenCategory (if gender r \<notin> set (classes le) then gender r else geography r))"
  using assms
  by (auto simp add: predict_df_def LabelEncoder_transform_def OneHotEncoder_transform_def)

lemma predict_fst:
  "fst (predict a r w) =
     (case deref w a of None \<Rightarrow> Inl DanglingReference | Some obj \<Rightarrow> predict_body obj r)"
  by (simp add: predict_def split: option.splits sum.splits)

lemma predict_frame_aux:
  "heap (snd (predict a r w)) = heap w"
  "g_model_loader (snd (predict a r w)) = g_model_loader w"
  "files (snd (predict a r w)) = files w"
  "opened (snd (predict a r w)) = opened w"
  by (simp_all add: predict_def logger_def split: option.splits sum.splits)

lemma predict_deref: "deref (snd (predict a r w)) b = deref w b"
  by (simp add: deref_def predict_frame_aux)

lemma load_all_ok:
  assumes "a < length (heap w)"
    "model_file (files w) = Stored m" "gender_file (files w) = Stored le"
    "ohe_file (files w) = Stored oh" "scaler_file (files w) = Stored sc"
  shows "load_all a w =
    (None,
     w\<lparr>opened := opened w @
          [MODEL_PATH, LABEL_ENCODER_GENDER_PATH, ONE_HOT_ENCODER_PATH, SCALER_PATH],
       logged := logged w @
          [Info ''Loading model and preprocessors...'',
           Info ''Successfully loaded all components''],
       heap := (heap w)[a := (heap w ! a)\<lparr>model := Some m, label_encoder_gender := Some le,
                    one_hot_encoder := Some oh, scaler := Some sc\<rparr>]\<rparr>)"
  using assms
  by (simp add: load_all_def Let_def open_file_def set_field_def logger_def)

lemma load_all_frame:
  "g_model_loader (snd (load_all a w)) = g_model_loader w"
  "files (snd (load_all a w)) = files w"
  "length (heap (snd (load_all a w))) = length (heap w)"
  by (simp_all add: load_all_def Let_def open_file_def set_field_def logger_def load_failed_def
      split: sum.splits)

lemma load_all_opened:
  "\<exists>ps. opened (snd (load_all a w)) = opened w @ MODEL_PATH # ps"
  by (simp add: load_all_def Let_def open_file_def set_field_def logger_def load_failed_def
      split: sum.splits)

lemma read_file_Inl: "read_file p f = Inl e \<Longrightarrow> classify e = LoadError"
  by (cases f) auto

lemma isl_read_file: "isl (read_file p f) = (\<forall>x. f \<noteq> Stored x)"
  by (cases f) auto

lemma load_all_fail:
  assumes "isl (read_file MODEL_PATH (model_file (files w)))
         \<or> isl (read_file LABEL_ENCODER_GENDER_PATH (gender_file (files w)))
         \<or> isl (read_file ONE_HOT_ENCODER_PATH (ohe_file (files w)))
         \<or> isl (read_file SCALER_PATH (scaler_file (files w)))"
  shows "\<exists>e. fst (load_all a w) = Some e \<and> classify e = LoadError"
  using assms
  by (auto simp add: load_all_def Let_def open_file_def set_field_def logger_def load_failed_def
      split: sum.splits dest: read_file_Inl)

lemma load_all_None:
  assumes "fst (load_all a w) = None"
  shows "\<exists>m le oh sc. model_file (files w) = Stored m \<and> gender_file (files w) = Stored le
     \<and> ohe_file (files w) = Stored oh \<and> scaler_file (files w) = Stored sc"
proof -
  have "\<not> isl (read_file MODEL_PATH (model_file (files w)))"
       "\<not> isl (read_file LABEL_ENCODER_GENDER_PATH (gender_file (files w)))"
       "\<not> isl (read_file ONE_HOT_ENCODER_PATH (ohe_file (files w)))"
       "\<not> isl (read_file SCALER_PATH (scaler_file (files w)))"
    using load_all_fail[of w a] assms by auto
  then show ?thesis by (simp add: isl_read_file)
qed

lemma ModelLoader_init_snd:
  "snd (ModelLoader_init w) =
     snd (load_all (length (heap w))
            (w\<lparr>heap := heap w @ [\<lparr>model = None, label_encoder_gender = None,
                                   one_hot_encoder = None, scaler = None\<rparr>]\<rparr>))"
  by (simp add: ModelLoader_init_def Let_def split: prod.splits option.splits)

lemma ModelLoader_init_frame:
  "g_model_loader (snd (ModelLoader_init w)) = g_model_loader w"
  "files (snd (ModelLoader_init w)) = files w"
  "length (heap (snd (ModelLoader_init w))) = Suc (length (heap w))"
  by (simp_all add: ModelLoader_init_snd load_all_frame)

lemma ModelLoader_init_ok:
  assumes "model_file (files w) = Stored m" "gender_file (files w) = Stored le"
    "ohe_file (files w) = Stored oh" "scaler_file (files w) = Stored sc"
  shows "ModelLoader_init w =
    (Inr (length (heap w)),
     w\<lparr>opened := opened w @
          [MODEL_PATH, LABEL_ENCODER_GENDER_PATH, ONE_HOT_ENCODER_PATH, SCALER_PATH],
       logged := logged w @
          [Info ''Loading model and preprocessors...'',
           Info ''Successfully loaded all components''],
       heap := heap w @ [\<lparr>model = Some m, label_encoder_gender = Some le,
                    one_hot_encoder = Some oh, scaler = Some sc\<rparr>]\<rparr>)"
  using assms
  by (simp add: ModelLoader_init_def Let_def load_all_ok)

lemma predict_scaled_in_set:
  assumes "label_encoder_gender L = Some le" and "one_hot_encoder L = Some oh"
    and "scaler L = Some sc"
    and "gender r \<in> set (classes le)" and "geography r \<in> set (categories oh)"
  shows "predict_scaled L r =
     StandardScaler_transform sc
       ([of_int (credit_score r), of_nat (index_of (gender r) (classes le)),
         of_int (age r), of_int (tenure r), balance r, of_int (num_of_products r),
         of_int (has_cr_card r), of_int (is_active_member r), estimated_salary r]
        @ map (\<lambda>c. if c = geography r then 1 else 0) (categories oh))"
  using assms
  by (simp add: predict_scaled_def predict_df_in_set comp_def)

lemma StandardScaler_transform_length:
  "StandardScaler_transform sc xs = Inr ys \<Longrightarrow> length ys = length xs"
  by (auto simp add: StandardScaler_transform_def split: if_splits)

lemma StandardScaler_transform_nth:
  assumes "StandardScaler_transform sc xs = Inr ys" and "i < length xs"
  shows "ys ! i = (xs ! i - mean sc ! i) / scale sc ! i"
  using assms
  by (auto simp add: StandardScaler_transform_def split: if_splits)

lemma predict_body_unseen:
  assumes "label_encoder_gender L = Some le" and "one_hot_encoder L = Some oh"
    and "gender r \<notin> set (classes le) \<or> geography r \<notin> set (categories oh)"
  shows "predict_body L r =
     Inl (UnseenCategory (if gender r \<notin> set (classes le) then gender r else geography r))"
  by (simp add: predict_body_def predict_scaled_def predict_df_unseen[OF assms])

lemma predict_body_Inr:
  assumes "predict_body L r = Inr (p, c)"
  shows "\<exists>m xs. model L = Some m \<and> p = forward m xs \<and> c = (1 / 2 < p)"
  using assms
  by (auto simp add: predict_body_def Classifier_predict_def
      split: sum.splits option.splits if_splits)

lemma predict_cases:
  assumes "deref w self = Some L"
  shows "predict self r w =
     (case predict_body L r of
        Inl e \<Rightarrow> (Inl e, logger (Error ''Error during prediction'' e) w)
      | Inr res \<Rightarrow> (Inr res, w))"
  using assms by (simp add: predict_def)

lemma get_model_loader_cached:
  "g_model_loader w = Some a \<Longrightarrow> get_model_loader w = (Inr a, w)"
  by (simp add: get_model_loader_def)

lemma ModelLoader_init_fst:
  "fst (ModelLoader_init w) =
     (case fst (load_all (length (heap w))
            (w\<lparr>heap := heap w @ [\<lparr>model = None, label_encoder_gender = None,
                                   one_hot_encoder = None, scaler = None\<rparr>]\<rparr>)) of
        Some e \<Rightarrow> Inl e
      | None \<Rightarrow> Inr (length (heap w)))"
  by (simp add: ModelLoader_init_def Let_def split: prod.splits option.splits)

lemma load_all_fst_files:
  "files w' = files w \<Longrightarrow> fst (load_all a' w') = fst (load_all a w)"
  by (simp add: load_all_def Let_def open_file_def set_field_def logger_def load_failed_def
      split: sum.splits)

lemma ModelLoader_init_Inr:
  assumes "fst (ModelLoader_init w) = Inr a"
  shows "a = length (heap w) \<and>
     (\<exists>m le oh sc. model_file (files w) = Stored m \<and> gender_file (files w) = Stored le
        \<and> ohe_file (files w) = Stored oh \<and> scaler_file (files w) = Stored sc)"
proof -
  let ?w1 = "w\<lparr>heap := heap w @ [\<lparr>model = None, label_encoder_gender = None,
                                   one_hot_encoder = None, scaler = None\<rparr>]\<rparr>"
  from assms have n: "fst (load_all (length (heap w)) ?w1) = None" and a: "a = length (heap w)"
    by (auto simp add: ModelLoader_init_fst split: option.splits)
  from load_all_None[OF n] a show ?thesis by simp
qed

lemma ModelLoader_init_Inl:
  assumes "fst (ModelLoader_init w) = Inl e"
  shows "classify e = LoadError"
proof -
  let ?w1 = "w\<lparr>heap := heap w @ [\<lparr>model = None, label_encoder_gender = None,
                                   one_hot_encoder = None, scaler = None\<rparr>]\<rparr>"
  from assms have s: "fst (load_all (length (heap w)) ?w1) = Some e"
    by (auto simp add: ModelLoader_init_fst split: option.splits)
  have "\<not> (\<exists>m le oh sc. model_file (files ?w1) = Stored m \<and> gender_file (files ?w1) = Stored le
        \<and> ohe_file (files ?w1) = Stored oh \<and> scaler_file (files ?w1) = Stored sc)"
  proof
    assume "\<exists>m le oh sc. model_file (files ?w1) = Stored m \<and> gender_file (files ?w1) = Stored le
        \<and> ohe_file (files ?w1) = Stored oh \<and> scaler_file (files ?w1) = Stored sc"
    then obtain m le oh sc where f: "model_file (files ?w1) = Stored m"
      "gender_file (files ?w1) = Stored le" "ohe_file (files ?w1) = Stored oh"
      "scaler_file (files ?w1) = Stored sc" by blast
    have "length (heap w) < length (heap ?w1)" by simp
    from load_all_ok[OF this f] s show False by simp
  qed
  then have "isl (read_file MODEL_PATH (model_file (files ?w1)))
         \<or> isl (read_file LABEL_ENCODER_GENDER_PATH (gender_file (files ?w1)))
         \<or> isl (read_file ONE_HOT_ENCODER_PATH (ohe_file (files ?w1)))
         \<or> isl (read_file SCALER_PATH (scaler_file (files ?w1)))"
    by (auto simp add: isl_read_file)
  from load_all_fail[OF this, of "length (heap w)"] s show ?thesis by auto
qed

lemma get_model_loader_fst:
  "fst (get_model_loader w) =
     (case g_model_loader w of None \<Rightarrow> fst (ModelLoader_init w) | Some a \<Rightarrow> Inr a)"
  by (simp add: get_model_loader_def split: option.splits prod.splits sum.splits)

lemma get_model_loader_snd_cache:
  "g_model_loader (snd (get_model_loader w)) =
     (case fst (get_model_loader w) of Inl e \<Rightarrow> None | Inr a \<Rightarrow> Some a)"
proof (cases "g_model_loader w")
  case None
  have "g_model_loader (snd (ModelLoader_init w)) = None"
    using None by (simp add: ModelLoader_init_frame)
  then show ?thesis using None
    by (auto simp add: get_model_loader_def split: prod.splits sum.splits)
next
  case (Some a)
  then show ?thesis by (simp add: get_model_loader_def)
qed

lemma get_model_loader_Inl:
  assumes "get_model_loader w = (Inl e, w1)"
  shows "g_model_loader w = None" and "ModelLoader_init w = (Inl e, w1)"
    and "g_model_loader w1 = None" and "files w1 = files w"
proof -
  show n: "g_model_loader w = None"
    using assms by (cases "g_model_loader w") (simp_all add: get_model_loader_def)
  show i: "ModelLoader_init w = (Inl e, w1)"
    using assms n by (auto simp add: get_model_loader_def split: prod.splits sum.splits)
  show "g_model_loader w1 = None"
    using ModelLoader_init_frame(1)[of w] i n by simp
  show "files w1 = files w"
    using ModelLoader_init_frame(2)[of w] i by simp
qed

lemma get_model_loader_opened:
  assumes "g_model_loader w = None"
  shows "\<exists>ps. opened (snd (get_model_loader w)) = opened w @ MODEL_PATH # ps"
proof -
  let ?w1 = "w\<lparr>heap := heap w @ [\<lparr>model = None, label_encoder_gender = None,
                                   one_hot_encoder = None, scaler = None\<rparr>]\<rparr>"
  have "opened (snd (get_model_loader w)) = opened (snd (ModelLoader_init w))"
    using assms by (simp add: get_model_loader_def split: prod.splits sum.splits)
  also have "\<dots> = opened (snd (load_all (length (heap w)) ?w1))"
    by (simp add: ModelLoader_init_snd)
  finally show ?thesis
    using load_all_opened[of "length (heap w)" ?w1] by simp
qed

lemma get_model_loader_heap_length:
  assumes "g_model_loader w = None"
  shows "length (heap (snd (get_model_loader w))) = Suc (length (heap w))"
proof -
  have "heap (snd (get_model_loader w)) = heap (snd (ModelLoader_init w))"
    using assms by (simp add: get_model_loader_def split: prod.splits sum.splits)
  then show ?thesis by (simp add: ModelLoader_init_frame)
qed

lemma get_model_loader_ok:
  assumes "g_model_loader w = None"
    and "model_file (files w) = Stored m" "gender_file (files w) = Stored le"
    "ohe_file (files w) = Stored oh" "scaler_file (files w) = Stored sc"
  shows "get_model_loader w =
    (Inr (length (heap w)),
     w\<lparr>opened := opened w @
          [MODEL_PATH, LABEL_ENCODER_GENDER_PATH, ONE_HOT_ENCODER_PATH, SCALER_PATH],
       logged := logged w @
          [Info ''Loading model and preprocessors...'',
           Info ''Successfully loaded all components''],
       heap := heap w @ [\<lparr>model = Some m, label_encoder_gender = Some le,
                    one_hot_encoder = Some oh, scaler = Some sc\<rparr>],
       g_model_loader := Some (length (heap w))\<rparr>)"
  using assms(1) by (simp add: get_model_loader_def ModelLoader_init_ok[OF assms(2-5)])

lemma exec_cache_complete:
  assumes "cache_complete w"
  shows "cache_complete (exec c w)"
proof (cases c)
  case GetModelLoader
  show ?thesis
  proof (cases "g_model_loader w")
    case (Some a)
    then show ?thesis using assms GetModelLoader by (simp add: get_model_loader_def)
  next
    case None
    show ?thesis
    proof (cases "fst (get_model_loader w)")
      case (Inl e)
      then show ?thesis using GetModelLoader
        by (simp add: cache_complete_def get_model_loader_snd_cache)
    next
      case (Inr a)
      then have "fst (ModelLoader_init w) = Inr a"
        using None by (simp add: get_model_loader_fst)
      from ModelLoader_init_Inr[OF this] obtain m le oh sc where
        f: "model_file (files w) = Stored m" "gender_file (files w) = Stored le"
        "ohe_file (files w) = Stored oh" "scaler_file (files w) = Stored sc" by blast
      show ?thesis using GetModelLoader
        by (simp add: get_model_loader_ok[OF None f] cache_complete_def deref_def
            fully_loaded_def)
    qed
  qed
next
  case (Predict a r)
  then show ?thesis using assms
    by (auto simp add: cache_complete_def predict_frame_aux predict_deref
        split: option.splits)
next
  case (SetDisk d)
  then show ?thesis using assms
    by (auto simp add: cache_complete_def deref_def split: option.splits)
qed

lemma run_cache_complete:
  "cache_complete w \<Longrightarrow> cache_complete (run cs w)"
  by (induction cs arbitrary: w) (simp_all add: exec_cache_complete)

lemma exec_cached:
  assumes "g_model_loader w = Some a"
  shows "g_model_loader (exec c w) = Some a \<and> heap (exec c w) = heap w \<and>
         opened (exec c w) = opened w"
  using assms
  by (cases c) (simp_all add: get_model_loader_def predict_frame_aux)

lemma run_cached:
  "g_model_loader w = Some a \<Longrightarrow>
     g_model_loader (run cs w) = Some a \<and> heap (run cs w) = heap w \<and>
     opened (run cs w) = opened w"
proof (induction cs arbitrary: w)
  case Nil
  then show ?case by simp
next
  case (Cons c cs)
  from exec_cached[OF Cons.prems, of c]
  have e: "g_model_loader (exec c w) = Some a" "heap (exec c w) = heap w"
    "opened (exec c w) = opened w" by simp_all
  from Cons.IH[OF e(1)] e show ?case by simp
qed


lemma get_model_loader_example:
  "get_model_loader (initial_process example_disk) =
     (Inr 0,
      \<lparr>files = example_disk,
       opened = [MODEL_PATH, LABEL_ENCODER_GENDER_PATH, ONE_HOT_ENCODER_PATH, SCALER_PATH],
       logged = [Info ''Loading model and preprocessors...'',
                 Info ''Successfully loaded all components''],
       heap = [example_loader],
       g_model_loader = Some 0\<rparr>)"
proof -
  have n: "g_model_loader (initial_process example_disk) = None"
    by (simp add: initial_process_def)
  have f: "model_file (files (initial_process example_disk)) = Stored example_classifier"
    "gender_file (files (initial_process example_disk)) = Stored example_gender_encoder"
    "ohe_file (files (initial_process example_disk)) = Stored example_geo_encoder"
    "scaler_file (files (initial_process example_disk)) = Stored example_scaler"
    by (simp_all add: initial_process_def example_disk_def)
  show ?thesis
    by (simp add: get_model_loader_ok[OF n f]) (simp add: initial_process_def example_loader_def)
qed

subsection \<open>The feature row\<close>

text \<open>
  Claim C2. For a record whose gender and geography are in the encoders' fitted category
  sets, the data frame that \<open>predict\<close> assembles has its columns in this order: credit
  score, gender code, age, tenure, balance, number of products, has-credit-card flag,
  is-active-member flag, estimated salary, then one geography column per fitted
  category, in the encoder's fitted order, with 1 in the column of the record's
  geography and 0 elsewhere. The scaler is applied to the values of that whole row: the
  scaled row, when there is one, has the same width and holds in each position the
  value minus the fitted mean, divided by the fitted scale. The classifier is invoked on
  the scaled row, and only when the scaler has produced one.
\<close>

theorem predict_feature_order:
  assumes "label_encoder_gender L = Some le" and "one_hot_encoder L = Some oh"
    and "scaler L = Some sc" and "model L = Some m"
    and "gender r \<in> set (classes le)" and "geography r \<in> set (categories oh)"
  shows "\<exists>row. predict_df L r = Inr row \<and>
     row = [(''CreditScore'', of_int (credit_score r)),
            (''Gender'', of_nat (index_of (gender r) (classes le))),
            (''Age'', of_int (age r)),
            (''Tenure'', of_int (tenure r)),
            (''Balance'', balance r),
            (''NumOfProducts'', of_int (num_of_products r)),
            (''HasCrCard'', of_int (has_cr_card r)),
            (''IsActiveMember'', of_int (is_active_member r)),
            (''EstimatedSalary'', estimated_salary r)]
           @ map (\<lambda>c. (''Geography_'' @ c, if c = geography r then 1 else 0)) (categories oh) \<and>
     predict_scaled L r = StandardScaler_transform sc (map snd row) \<and>
     (\<forall>xs. predict_scaled L r = Inr xs \<longrightarrow>
        length xs = length row \<and>
        (\<forall>i < length row. xs ! i = (snd (row ! i) - mean sc ! i) / scale sc ! i)) \<and>
     predict_body L r =
       (case StandardScaler_transform sc (map snd row) of
          Inl e \<Rightarrow> Inl e
        | Inr xs \<Rightarrow>
            (case Classifier_predict m xs of
               Inl e \<Rightarrow> Inl e
             | Inr p \<Rightarrow> Inr (p, 1 / 2 < p)))"
proof -
  let ?row = "[(''CreditScore'', of_int (credit_score r)),
            (''Gender'', of_nat (index_of (gender r) (classes le))),
            (''Age'', of_int (age r)),
            (''Tenure'', of_int (tenure r)),
            (''Balance'', balance r),
            (''NumOfProducts'', of_int (num_of_products r)),
            (''HasCrCard'', of_int (has_cr_card r)),
            (''IsActiveMember'', of_int (is_active_member r)),
            (''EstimatedSalary'', estimated_salary r)]
           @ map (\<lambda>c. (''Geography_'' @ c, if c = geography r then (1::real) else 0)) (categories oh)"
  have df: "predict_df L r = Inr ?row"
    using assms by (simp add: predict_df_in_set)
  have sc: "predict_scaled L r = StandardScaler_transform sc (map snd ?row)"
    using assms(3) by (simp add: predict_scaled_def df)
  have nth: "\<forall>xs. predict_scaled L r = Inr xs \<longrightarrow>
        length xs = length ?row \<and>
        (\<forall>i < length ?row. xs ! i = (snd (?row ! i) - mean sc ! i) / scale sc ! i)"
  proof (intro allI impI)
    fix xs assume a: "predict_scaled L r = Inr xs"
    then have t: "StandardScaler_transform sc (map snd ?row) = Inr xs"
      using sc by simp
    have l: "length xs = length ?row"
      using StandardScaler_transform_length[OF t] by simp
    have "\<forall>i < length ?row. xs ! i = (snd (?row ! i) - mean sc ! i) / scale sc ! i"
    proof (intro allI impI)
      fix i assume i: "i < length ?row"
      then have "i < length (map snd ?row)" by simp
      from StandardScaler_transform_nth[OF t this]
      show "xs ! i = (snd (?row ! i) - mean sc ! i) / scale sc ! i"
        using i by (simp only: nth_map)
    qed
    with l show "length xs = length ?row \<and>
        (\<forall>i < length ?row. xs ! i = (snd (?row ! i) - mean sc ! i) / scale sc ! i)"
      by blast
  qed
  have body: "predict_body L r =
       (case StandardScaler_transform sc (map snd ?row) of
          Inl e \<Rightarrow> Inl e
        | Inr xs \<Rightarrow>
            (case Classifier_predict m xs of
               Inl e \<Rightarrow> Inl e
             | Inr p \<Rightarrow> Inr (p, 1 / 2 < p)))"
    using assms(4) by (simp add: predict_body_def sc split: sum.splits)
  from df sc nth body show ?thesis by blast
qed

theorem predict_feature_order_witness:
  "gender example_record \<in> set (classes example_gender_encoder) \<and>
   geography example_record \<in> set (categories example_geo_encoder) \<and>
   predict_df example_loader example_record =
     Inr [(''CreditScore'', 650), (''Gender'', 1), (''Age'', 40), (''Tenure'', 5),
          (''Balance'', 0), (''NumOfProducts'', 1), (''HasCrCard'', 1),
          (''IsActiveMember'', 1), (''EstimatedSalary'', 50000),
          (''Geography_France'', 1), (''Geography_Germany'', 0), (''Geography_Spain'', 0)] \<and>
   predict_scaled example_loader example_record = Inr [0, 1, 0, 0, 0, 0, 1, 1, 0, 1, 0, 0] \<and>
   predict_body example_loader example_record = Inr (1 / 2, False)"
proof -
  have h1: "label_encoder_gender example_loader = Some example_gender_encoder"
    and h2: "one_hot_encoder example_loader = Some example_geo_encoder"
    and h3: "scaler example_loader = Some example_scaler"
    and h4: "model example_loader = Some example_classifier"
    by (simp_all add: example_loader_def)
  have h5: "gender example_record \<in> set (classes example_gender_encoder)"
    and h6: "geography example_record \<in> set (categories example_geo_encoder)"
    by (simp_all add: example_record_def example_gender_encoder_def example_geo_encoder_def)
  from predict_feature_order[OF h1 h2 h3 h4 h5 h6] h5 h6
  show ?thesis
    by (simp add: example_record_def example_gender_encoder_def example_geo_encoder_def
        example_scaler_def example_classifier_def StandardScaler_transform_def
        Classifier_predict_def)
qed

text \<open>
  Claim C3, as stated, counts 8 base columns. The row has 9 columns before the geography
  columns: the 8 numeric and boolean fields of the record and the gender code. With
  three fitted geography categories the row has 12 entries, not 11.
\<close>

theorem feature_vector_length_counterexample:
  "\<not> isl (predict_scaled example_loader example_record) \<and>
   length (projr (predict_scaled example_loader example_record))
     \<noteq> 8 + length (categories example_geo_encoder) \<and>
   \<not> isl (predict_df example_loader example_record) \<and>
   length (projr (predict_df example_loader example_record))
     \<noteq> 8 + length (categories example_geo_encoder)"
  by (simp add: predict_scaled_def predict_df_def LabelEncoder_transform_def
      OneHotEncoder_transform_def get_feature_names_out_def example_loader_def
      example_record_def example_gender_encoder_def example_geo_encoder_def
      example_scaler_def StandardScaler_transform_def)

text \<open>
  Claim C3, amended. For a record whose gender and geography are in the fitted category
  sets, the assembled row has exactly 9 columns plus one column per fitted geography
  category, and so has the scaled row whenever the scaler accepts it.
\<close>

theorem feature_vector_length:
  assumes "label_encoder_gender L = Some le" and "one_hot_encoder L = Some oh"
    and "gender r \<in> set (classes le)" and "geography r \<in> set (categories oh)"
  shows "(\<exists>df. predict_df L r = Inr df \<and> length df = 9 + length (categories oh)) \<and>
         (\<forall>xs. predict_scaled L r = Inr xs \<longrightarrow> length xs = 9 + length (categories oh))"
proof -
  have df: "\<exists>df. predict_df L r = Inr df \<and> length df = 9 + length (categories oh)"
    using assms by (simp add: predict_df_in_set)
  have "\<forall>xs. predict_scaled L r = Inr xs \<longrightarrow> length xs = 9 + length (categories oh)"
  proof (intro allI impI)
    fix xs assume a: "predict_scaled L r = Inr xs"
    from df obtain d where d: "predict_df L r = Inr d" "length d = 9 + length (categories oh)"
      by blast
    from a d(1) obtain sc where "StandardScaler_transform sc (map snd d) = Inr xs"
      by (auto simp add: predict_scaled_def split: option.splits)
    from StandardScaler_transform_length[OF this] d(2)
    show "length xs = 9 + length (categories oh)" by simp
  qed
  with df show ?thesis by blast
qed

theorem feature_vector_length_witness:
  "gender example_record \<in> set (classes example_gender_encoder) \<and>
   geography example_record \<in> set (categories example_geo_encoder) \<and>
   length (projr (predict_df example_loader example_record)) = 12 \<and>
   length (projr (predict_scaled example_loader example_record)) = 12"
proof -
  have h1: "label_encoder_gender example_loader = Some example_gender_encoder"
    and h2: "one_hot_encoder example_loader = Some example_geo_encoder"
    by (simp_all add: example_loader_def)
  have h5: "gender example_record \<in> set (classes example_gender_encoder)"
    and h6: "geography example_record \<in> set (categories example_geo_encoder)"
    by (simp_all add: example_record_def example_gender_encoder_def example_geo_encoder_def)
  have s: "predict_scaled example_loader example_record = Inr [0, 1, 0, 0, 0, 0, 1, 1, 0, 1, 0, 0]"
    by (simp add: predict_scaled_def predict_df_def LabelEncoder_transform_def
        OneHotEncoder_transform_def get_feature_names_out_def example_loader_def
        example_record_def example_gender_encoder_def example_geo_encoder_def
        example_scaler_def StandardScaler_transform_def)
  from feature_vector_length[OF h1 h2 h5 h6] s h5 h6
  show ?thesis
    by (auto simp add: example_geo_encoder_def)
qed

subsection \<open>Unseen categories\<close>

text \<open>
  Claim C4. When the record's gender is not in the label encoder's fitted classes, or its
  geography is not in the one-hot encoder's fitted categories, \<open>predict\<close> returns no
  result: it fails with the encoder's unseen-category error, an EncodingError, which it
  logs once and raises again unchanged. The gender is encoded first, so its error wins
  when both values are unseen. Nothing is substituted for the unseen value, and neither
  the scaler nor the classifier is consulted.
\<close>

theorem predict_unseen_category:
  assumes "deref w self = Some L"
    and "label_encoder_gender L = Some le" and "one_hot_encoder L = Some oh"
    and "gender r \<notin> set (classes le) \<or> geography r \<notin> set (categories oh)"
  shows "\<exists>e. predict self r w = (Inl e, logger (Error ''Error during prediction'' e) w) \<and>
           classify e = EncodingError \<and>
           e = UnseenCategory (if gender r \<notin> set (classes le) then gender r else geography r)"
  using assms(1) predict_body_unseen[OF assms(2-4)]
  by (simp add: predict_def)

theorem predict_unseen_category_witness:
  "geography (example_record\<lparr>geography := ''Italy''\<rparr>) \<notin> set (categories example_geo_encoder) \<and>
   fst (predict 0 (example_record\<lparr>geography := ''Italy''\<rparr>) example_process)
     = Inl (UnseenCategory ''Italy'') \<and>
   logged (snd (predict 0 (example_record\<lparr>geography := ''Italy''\<rparr>) example_process))
     = [Error ''Error during prediction'' (UnseenCategory ''Italy'')]"
proof -
  have h1: "deref example_process 0 = Some example_loader"
    by (simp add: deref_def example_process_def)
  have h2: "label_encoder_gender example_loader = Some example_gender_encoder"
    and h3: "one_hot_encoder example_loader = Some example_geo_encoder"
    by (simp_all add: example_loader_def)
  have h4: "gender (example_record\<lparr>geography := ''Italy''\<rparr>) \<notin> set (classes example_gender_encoder) \<or>
    geography (example_record\<lparr>geography := ''Italy''\<rparr>) \<notin> set (categories example_geo_encoder)"
    by (simp add: example_record_def example_geo_encoder_def)
  from predict_unseen_category[OF h1 h2 h3 h4] h4
  show ?thesis
    by (auto simp add: example_record_def example_gender_encoder_def example_geo_encoder_def
        logger_def example_process_def)
qed

subsection \<open>Probability and decision\<close>

text \<open>
  Claim C1. Take an artifact store that is fully loaded and consistent (the scaler and
  the classifier have the width of the assembled row) and whose classifier emits values
  in the unit interval, as the spec assumes of its sigmoid output. Then for every record
  whose gender and geography are in the fitted category sets, \<open>predict\<close> returns a
  probability between 0 and 1 and the decision "probability greater than one half".
  The threshold is the constant one half, equal to \<open>CHURN_THRESHOLD\<close> of \<open>config.py\<close>;
  \<open>predict\<close> has no parameter for it. A probability of exactly one half gives the
  decision false.
\<close>

theorem predict_in_set_probability:
  assumes "deref w self = Some L"
    and "model L = Some m" and "label_encoder_gender L = Some le"
    and "one_hot_encoder L = Some oh" and "scaler L = Some sc"
    and "gender r \<in> set (classes le)" and "geography r \<in> set (categories oh)"
    and "length (mean sc) = 9 + length (categories oh)"
    and "length (scale sc) = length (mean sc)"
    and "input_width m = length (mean sc)"
    and "\<forall>xs. 0 \<le> forward m xs \<and> forward m xs \<le> 1"
  shows "\<exists>p c. fst (predict self r w) = Inr (p, c) \<and> 0 \<le> p \<and> p \<le> 1 \<and>
           c = (CHURN_THRESHOLD < p) \<and> CHURN_THRESHOLD = 1 / 2 \<and> (p = 1 / 2 \<longrightarrow> \<not> c)"
proof -
  define vals where "vals =
       [of_int (credit_score r), of_nat (index_of (gender r) (classes le)),
         of_int (age r), of_int (tenure r), balance r, of_int (num_of_products r),
         of_int (has_cr_card r), of_int (is_active_member r), estimated_salary r]
        @ map (\<lambda>c. if c = geography r then (1::real) else 0) (categories oh)"
  have s: "predict_scaled L r = StandardScaler_transform sc vals"
    unfolding vals_def using assms(3,4,5,6,7) by (rule predict_scaled_in_set)
  have "length vals = length (mean sc)"
    using assms(8) by (simp add: vals_def)
  then obtain xs where xs: "StandardScaler_transform sc vals = Inr xs"
    using assms(9) by (simp add: StandardScaler_transform_def)
  have lx: "length xs = input_width m"
    using StandardScaler_transform_length[OF xs] assms(8,10) by (simp add: vals_def)
  have b: "predict_body L r = Inr (forward m xs, 1 / 2 < forward m xs)"
    using assms(2) lx by (simp add: predict_body_def s xs Classifier_predict_def)
  have "fst (predict self r w) = Inr (forward m xs, 1 / 2 < forward m xs)"
    using assms(1) b by (simp add: predict_fst)
  moreover have "0 \<le> forward m xs \<and> forward m xs \<le> 1"
    using assms(11) by blast
  ultimately show ?thesis
    by (simp add: CHURN_THRESHOLD_def)
qed

theorem predict_in_set_probability_witness:
  "gender example_record \<in> set (classes example_gender_encoder) \<and>
   geography example_record \<in> set (categories example_geo_encoder) \<and>
   (\<forall>xs. 0 \<le> forward example_classifier xs \<and> forward example_classifier xs \<le> 1) \<and>
   fst (predict 0 example_record example_process) = Inr (1 / 2, False)"
proof -
  have h1: "deref example_process 0 = Some example_loader"
    by (simp add: deref_def example_process_def)
  have h2: "model example_loader = Some example_classifier"
    and h3: "label_encoder_gender example_loader = Some example_gender_encoder"
    and h4: "one_hot_encoder example_loader = Some example_geo_encoder"
    and h5: "scaler example_loader = Some example_scaler"
    by (simp_all add: example_loader_def)
  have h6: "gender example_record \<in> set (classes example_gender_encoder)"
    and h7: "geography example_record \<in> set (categories example_geo_encoder)"
    by (simp_all add: example_record_def example_gender_encoder_def example_geo_encoder_def)
  have h8: "length (mean example_scaler) = 9 + length (categories example_geo_encoder)"
    and h9: "length (scale example_scaler) = length (mean example_scaler)"
    and h10: "input_width example_classifier = length (mean example_scaler)"
    by (simp_all add: example_scaler_def example_geo_encoder_def example_classifier_def)
  have h11: "\<forall>xs. 0 \<le> forward example_classifier xs \<and> forward example_classifier xs \<le> 1"
    by (simp add: example_classifier_def)
  have v: "fst (predict 0 example_record example_process) = Inr (1 / 2, False)"
    by (simp add: predict_fst h1 predict_body_def predict_scaled_def predict_df_def
        LabelEncoder_transform_def OneHotEncoder_transform_def get_feature_names_out_def
        example_loader_def example_record_def example_gender_encoder_def
        example_geo_encoder_def example_scaler_def example_classifier_def
        StandardScaler_transform_def Classifier_predict_def)
  from predict_in_set_probability[OF h1 h2 h3 h4 h5 h6 h7 h8 h9 h10 h11] h6 h7 h11 v
  show ?thesis by blast
qed

subsection \<open>Determinism, failure and frame of \<open>predict\<close>\<close>

text \<open>
  Claim C5. Calling \<open>predict\<close> twice in a row with the same record, on the same loader
  object, gives the same outcome both times, and the scaled feature row of the second
  run is the one of the first. More generally the outcome is the same in any two process
  states in which the loader object has the same contents, whatever else differs (the
  log, the files opened so far): no hidden state influences the output. The artifacts'
  operations are functions of their arguments in this model.
\<close>

theorem predict_twice_identical:
  "fst (predict self r (snd (predict self r w))) = fst (predict self r w) \<and>
   map_option (\<lambda>L. predict_scaled L r) (deref (snd (predict self r w)) self)
     = map_option (\<lambda>L. predict_scaled L r) (deref w self) \<and>
   (deref w' self' = deref w self \<longrightarrow> fst (predict self' r w') = fst (predict self r w))"
  by (simp add: predict_fst predict_deref)

theorem predict_twice_identical_witness:
  "deref (example_process\<lparr>logged := [Info ''earlier'']\<rparr>) 0 = deref example_process 0 \<and>
   fst (predict 0 example_record example_process) = Inr (1 / 2, False) \<and>
   fst (predict 0 example_record (snd (predict 0 example_record example_process)))
     = Inr (1 / 2, False) \<and>
   fst (predict 0 example_record (example_process\<lparr>logged := [Info ''earlier'']\<rparr>))
     = Inr (1 / 2, False)"
proof -
  have d: "deref (example_process\<lparr>logged := [Info ''earlier'']\<rparr>) 0 = deref example_process 0"
    by (simp add: deref_def)
  have d0: "deref example_process 0 = Some example_loader"
    by (simp add: deref_def example_process_def)
  have v: "fst (predict 0 example_record example_process) = Inr (1 / 2, False)"
    by (simp add: predict_fst d0 predict_body_def predict_scaled_def predict_df_def
        LabelEncoder_transform_def OneHotEncoder_transform_def get_feature_names_out_def
        example_loader_def example_record_def example_gender_encoder_def
        example_geo_encoder_def example_scaler_def example_classifier_def
        StandardScaler_transform_def Classifier_predict_def)
  from predict_twice_identical[of 0 example_record example_process
      "example_process\<lparr>logged := [Info ''earlier'']\<rparr>" 0] d v
  show ?thesis by simp
qed

text \<open>
  Claim C8. On a loader object, \<open>predict\<close> ends in exactly one of two ways, decided by
  the body of its \<open>try\<close>. It succeeds only when every step has succeeded: both
  encodings, the scaler and the classifier. It then returns a complete result, the
  classifier's probability together with the decision "probability greater than one
  half" (a probability in the unit interval whenever the classifier emits values
  there), and leaves the process state as it was. When any step fails, the encoding of
  gender or geography, the scaler, a missing classifier or the classifier's own call,
  \<open>predict\<close> returns no result at all: the exception of that step is logged once and
  raised again unchanged, with no second attempt. The caller \<open>main\<close> calls \<open>predict\<close>
  once and shows either the result or the exception it receives.
\<close>

theorem predict_all_or_nothing:
  assumes "deref w self = Some L"
  shows "predict self r w =
           (case predict_body L r of
              Inl e \<Rightarrow> (Inl e, logger (Error ''Error during prediction'' e) w)
            | Inr res \<Rightarrow> (Inr res, w)) \<and>
         ((\<exists>p xs m. predict_scaled L r = Inr xs \<and> model L = Some m \<and>
               Classifier_predict m xs = Inr p \<and>
               predict_body L r = Inr (p, 1 / 2 < p) \<and>
               predict self r w = (Inr (p, 1 / 2 < p), w) \<and>
               ((\<forall>ys. 0 \<le> forward m ys \<and> forward m ys \<le> 1) \<longrightarrow> 0 \<le> p \<and> p \<le> 1)) \<or>
          (\<exists>e. predict_body L r = Inl e \<and>
               predict self r w = (Inl e, logger (Error ''Error during prediction'' e) w))) \<and>
         (\<forall>e. predict_df L r = Inl e \<longrightarrow>
              predict self r w = (Inl e, logger (Error ''Error during prediction'' e) w)) \<and>
         (\<forall>e. predict_scaled L r = Inl e \<longrightarrow>
              predict self r w = (Inl e, logger (Error ''Error during prediction'' e) w)) \<and>
         (\<forall>xs. predict_scaled L r = Inr xs \<and> model L = None \<longrightarrow>
              predict self r w =
                (Inl AttributeError, logger (Error ''Error during prediction'' AttributeError) w)) \<and>
         (\<forall>xs m e. predict_scaled L r = Inr xs \<and> model L = Some m \<and>
              Classifier_predict m xs = Inl e \<longrightarrow>
              predict self r w = (Inl e, logger (Error ''Error during prediction'' e) w)) \<and>
         (\<forall>xs m p. predict_scaled L r = Inr xs \<and> model L = Some m \<and>
              Classifier_predict m xs = Inr p \<longrightarrow>
              predict self r w = (Inr (p, 1 / 2 < p), w)) \<and>
         (g_model_loader w = Some self \<longrightarrow>
            fst (main True r w) =
              (case predict_body L r of
                 Inl e \<Rightarrow> PredictionFailed e
               | Inr (p, c) \<Rightarrow> Displayed p c))"
proof -
  note pc = predict_cases[OF assms, of r]
  have E: "predict self r w =
           (case predict_body L r of
              Inl e \<Rightarrow> (Inl e, logger (Error ''Error during prediction'' e) w)
            | Inr res \<Rightarrow> (Inr res, w))"
    by (rule pc)
  have A: "(\<exists>p xs m. predict_scaled L r = Inr xs \<and> model L = Some m \<and>
               Classifier_predict m xs = Inr p \<and>
               predict_body L r = Inr (p, 1 / 2 < p) \<and>
               predict self r w = (Inr (p, 1 / 2 < p), w) \<and>
               ((\<forall>ys. 0 \<le> forward m ys \<and> forward m ys \<le> 1) \<longrightarrow> 0 \<le> p \<and> p \<le> 1)) \<or>
          (\<exists>e. predict_body L r = Inl e \<and>
               predict self r w = (Inl e, logger (Error ''Error during prediction'' e) w))"
  proof (cases "predict_body L r")
    case (Inl e)
    then show ?thesis by (simp add: pc)
  next
    case (Inr res)
    obtain p c where res: "res = (p, c)" by (cases res)
    from Inr res obtain xs m where s: "predict_scaled L r = Inr xs" "model L = Some m"
      "Classifier_predict m xs = Inr p" "c = (1 / 2 < p)"
      by (auto simp add: predict_body_def split: sum.splits option.splits)
    have b: "predict_body L r = Inr (p, 1 / 2 < p)"
      using Inr res s(4) by simp
    have pr: "predict self r w = (Inr (p, 1 / 2 < p), w)"
      using b by (simp add: pc)
    have "p = forward m xs"
      using s(3) by (auto simp add: Classifier_predict_def split: if_splits)
    then have rg: "(\<forall>ys. 0 \<le> forward m ys \<and> forward m ys \<le> 1) \<longrightarrow> 0 \<le> p \<and> p \<le> 1"
      by simp
    from s(1,2,3) b pr rg show ?thesis by blast
  qed
  have S1: "\<forall>e. predict_df L r = Inl e \<longrightarrow>
              predict self r w = (Inl e, logger (Error ''Error during prediction'' e) w)"
    by (simp add: pc predict_body_def predict_scaled_def)
  have S2: "\<forall>e. predict_scaled L r = Inl e \<longrightarrow>
              predict self r w = (Inl e, logger (Error ''Error during prediction'' e) w)"
    by (simp add: pc predict_body_def)
  have S3: "\<forall>xs. predict_scaled L r = Inr xs \<and> model L = None \<longrightarrow>
              predict self r w =
                (Inl AttributeError, logger (Error ''Error during prediction'' AttributeError) w)"
    by (simp add: pc predict_body_def)
  have S4: "\<forall>xs m e. predict_scaled L r = Inr xs \<and> model L = Some m \<and>
              Classifier_predict m xs = Inl e \<longrightarrow>
              predict self r w = (Inl e, logger (Error ''Error during prediction'' e) w)"
    by (simp add: pc predict_body_def)
  have S5: "\<forall>xs m p. predict_scaled L r = Inr xs \<and> model L = Some m \<and>
              Classifier_predict m xs = Inr p \<longrightarrow>
              predict self r w = (Inr (p, 1 / 2 < p), w)"
    by (simp add: pc predict_body_def)
  have B: "g_model_loader w = Some self \<longrightarrow>
            fst (main True r w) =
              (case predict_body L r of
                 Inl e \<Rightarrow> PredictionFailed e
               | Inr (p, c) \<Rightarrow> Displayed p c)"
    by (auto simp add: main_def load_model_def get_model_loader_cached pc
        split: prod.splits sum.splits)
  from E A S1 S2 S3 S4 S5 B show ?thesis by blast
qed

theorem predict_all_or_nothing_witness:
  "deref example_process 0 = Some example_loader \<and>
   predict 0 example_record example_process = (Inr (1 / 2, False), example_process) \<and>
   fst (main True example_record example_process) = Displayed (1 / 2) False \<and>
   deref (example_process\<lparr>heap :=
            [example_loader\<lparr>model := Some (example_classifier\<lparr>input_width := 11\<rparr>)\<rparr>]\<rparr>) 0
     = Some (example_loader\<lparr>model := Some (example_classifier\<lparr>input_width := 11\<rparr>)\<rparr>) \<and>
   predict 0 example_record
      (example_process\<lparr>heap :=
            [example_loader\<lparr>model := Some (example_classifier\<lparr>input_width := 11\<rparr>)\<rparr>]\<rparr>)
     = (Inl (ShapeMismatch 12 11),
        logger (Error ''Error during prediction'' (ShapeMismatch 12 11))
          (example_process\<lparr>heap :=
            [example_loader\<lparr>model := Some (example_classifier\<lparr>input_width := 11\<rparr>)\<rparr>]\<rparr>)) \<and>
   fst (main True example_record
      (example_process\<lparr>heap :=
            [example_loader\<lparr>model := Some (example_classifier\<lparr>input_width := 11\<rparr>)\<rparr>]\<rparr>))
     = PredictionFailed (ShapeMismatch 12 11)"
proof -
  let ?L' = "example_loader\<lparr>model := Some (example_classifier\<lparr>input_width := 11\<rparr>)\<rparr>"
  let ?w' = "example_process\<lparr>heap := [?L']\<rparr>"
  have d0: "deref example_process 0 = Some example_loader"
    by (simp add: deref_def example_process_def)
  have d1: "deref ?w' 0 = Some ?L'"
    by (simp add: deref_def)
  have g0: "g_model_loader example_process = Some 0"
    and g1: "g_model_loader ?w' = Some 0"
    by (simp_all add: example_process_def)
  have b0: "predict_body example_loader example_record = Inr (1 / 2, False)"
    by (simp add: predict_body_def predict_scaled_def predict_df_def
        LabelEncoder_transform_def OneHotEncoder_transform_def get_feature_names_out_def
        example_loader_def example_record_def example_gender_encoder_def
        example_geo_encoder_def example_scaler_def example_classifier_def
        StandardScaler_transform_def Classifier_predict_def)
  have b1: "predict_body ?L' example_record = Inl (ShapeMismatch 12 11)"
    by (simp add: predict_body_def predict_scaled_def predict_df_def
        LabelEncoder_transform_def OneHotEncoder_transform_def get_feature_names_out_def
        example_loader_def example_record_def example_gender_encoder_def
        example_geo_encoder_def example_scaler_def example_classifier_def
        StandardScaler_transform_def Classifier_predict_def)
  from predict_all_or_nothing[OF d0, of example_record]
       predict_all_or_nothing[OF d1, of example_record] d0 d1 g0 g1 b0 b1
  show ?thesis by simp
qed

text \<open>
  Claim C9. A call of \<open>predict\<close>, successful or failed, leaves every loader object in the
  heap as it was, and with it the classifier, both encoders and the scaler; it leaves
  the module-level loader variable, the disk and the list of opened files as they were.
  The record is a value passed to the call and cannot be changed by it. The outcome is a
  function of the record and of the contents of the loader object alone. The only state
  a call touches is the log: a failed call appends one error line, a successful call
  appends nothing.
\<close>

theorem predict_no_side_effects:
  "heap (snd (predict self r w)) = heap w \<and>
   g_model_loader (snd (predict self r w)) = g_model_loader w \<and>
   files (snd (predict self r w)) = files w \<and>
   opened (snd (predict self r w)) = opened w \<and>
   deref (snd (predict self r w)) self = deref w self \<and>
   (case fst (predict self r w) of
      Inr res \<Rightarrow> snd (predict self r w) = w
    | Inl e \<Rightarrow> e = DanglingReference \<and> snd (predict self r w) = w \<or>
              snd (predict self r w) = logger (Error ''Error during prediction'' e) w) \<and>
   fst (predict self r w) =
     (case deref w self of
        None \<Rightarrow> Inl DanglingReference
      | Some L \<Rightarrow> predict_body L r)"
  by (simp add: predict_frame_aux predict_deref predict_fst)
     (simp add: predict_def split: option.splits sum.splits)

theorem predict_no_side_effects_witness:
  "heap (snd (predict 0 (example_record\<lparr>gender := ''Other''\<rparr>) example_process))
     = [example_loader] \<and>
   g_model_loader (snd (predict 0 (example_record\<lparr>gender := ''Other''\<rparr>) example_process))
     = Some 0 \<and>
   files (snd (predict 0 (example_record\<lparr>gender := ''Other''\<rparr>) example_process))
     = example_disk \<and>
   fst (predict 0 (example_record\<lparr>gender := ''Other''\<rparr>) example_process)
     = Inl (UnseenCategory ''Other'')"
proof -
  have d0: "deref example_process 0 = Some example_loader"
    by (simp add: deref_def example_process_def)
  have b: "predict_body example_loader (example_record\<lparr>gender := ''Other''\<rparr>)
      = Inl (UnseenCategory ''Other'')"
    by (simp add: predict_body_def predict_scaled_def predict_df_def
        LabelEncoder_transform_def example_loader_def example_record_def
        example_gender_encoder_def)
  from predict_no_side_effects[of 0 "example_record\<lparr>gender := ''Other''\<rparr>" example_process]
  show ?thesis
    by (simp add: d0 b) (simp add: example_process_def)
qed

subsection \<open>Loading and the module-level loader\<close>

text \<open>
  Claim C6. A process starts with the module-level loader variable unset and no file
  opened; the artifacts are loaded by the first call of \<open>get_model_loader\<close>, not before.
  After a successful call, through any later history of \<open>get_model_loader\<close> calls,
  \<open>predict\<close> calls and changes of the disk, every call of \<open>get_model_loader\<close> returns
  the same object, by address, and changes nothing: no file is opened again, and the
  heap, with the loaded object and its four artifacts, stays as it was after the load.
\<close>

theorem singleton_loader:
  assumes "get_model_loader w = (Inr a, w1)"
  shows "get_model_loader (run cs w1) = (Inr a, run cs w1) \<and>
         opened (run cs w1) = opened w1 \<and>
         heap (run cs w1) = heap w1 \<and>
         deref (run cs w1) a = deref w1 a \<and>
         g_model_loader (initial_process d) = None \<and>
         opened (initial_process d) = [] \<and>
         heap (initial_process d) = []"
proof -
  have "g_model_loader w1 = Some a"
    using get_model_loader_snd_cache[of w] assms by simp
  from run_cached[OF this, of cs]
  have r: "g_model_loader (run cs w1) = Some a" "heap (run cs w1) = heap w1"
    "opened (run cs w1) = opened w1" by simp_all
  have "get_model_loader (run cs w1) = (Inr a, run cs w1)"
    using r(1) by (rule get_model_loader_cached)
  moreover have "deref (run cs w1) a = deref w1 a"
    using r(2) by (simp add: deref_def)
  ultimately show ?thesis
    using r by (simp add: initial_process_def)
qed

theorem singleton_loader_witness:
  "fst (get_model_loader (initial_process example_disk)) = Inr 0 \<and>
   fst (get_model_loader
         (run [Predict 0 example_record,
               SetDisk (example_disk\<lparr>model_file := Missing\<rparr>),
               GetModelLoader]
            (snd (get_model_loader (initial_process example_disk))))) = Inr 0 \<and>
   opened (run [Predict 0 example_record,
               SetDisk (example_disk\<lparr>model_file := Missing\<rparr>),
               GetModelLoader]
            (snd (get_model_loader (initial_process example_disk))))
     = [MODEL_PATH, LABEL_ENCODER_GENDER_PATH, ONE_HOT_ENCODER_PATH, SCALER_PATH] \<and>
   heap (run [Predict 0 example_record,
               SetDisk (example_disk\<lparr>model_file := Missing\<rparr>),
               GetModelLoader]
            (snd (get_model_loader (initial_process example_disk))))
     = [example_loader]"
proof -
  have h: "get_model_loader (initial_process example_disk) =
      (Inr 0, snd (get_model_loader (initial_process example_disk)))"
    by (simp add: get_model_loader_example)
  from singleton_loader[OF h, of "[Predict 0 example_record,
               SetDisk (example_disk\<lparr>model_file := Missing\<rparr>),
               GetModelLoader]"]
  show ?thesis
    by (simp add: get_model_loader_example)
qed

text \<open>
  Claim C7. When the loader variable is unset and one of the four artifact files is
  missing, unreadable or does not deserialize, \<open>get_model_loader\<close> fails with the
  exception of the failing read, a LoadError, raised again unchanged by \<open>_load_all\<close>;
  the loader variable stays unset and no loader object is returned, so there is no
  object to call \<open>predict\<close> on. The script \<open>main\<close> stops at that point with the error,
  whether or not the predict button is pressed.
\<close>

theorem load_failure_at_startup:
  assumes "g_model_loader w = None"
    and "artifact_unavailable (model_file (files w)) \<or>
         artifact_unavailable (gender_file (files w)) \<or>
         artifact_unavailable (ohe_file (files w)) \<or>
         artifact_unavailable (scaler_file (files w))"
  shows "\<exists>e. fst (get_model_loader w) = Inl e \<and> classify e = LoadError \<and>
           g_model_loader (snd (get_model_loader w)) = None \<and>
           main pressed r w = (Stopped e, snd (get_model_loader w))"
proof -
  have "\<not> (\<exists>a. fst (ModelLoader_init w) = Inr a)"
  proof
    assume "\<exists>a. fst (ModelLoader_init w) = Inr a"
    then obtain a where "fst (ModelLoader_init w) = Inr a" by blast
    from ModelLoader_init_Inr[OF this] assms(2) show False
      by (auto simp add: artifact_unavailable_def)
  qed
  then obtain e where e: "fst (ModelLoader_init w) = Inl e"
    by (cases "fst (ModelLoader_init w)") auto
  have c: "classify e = LoadError"
    using e by (rule ModelLoader_init_Inl)
  have g: "fst (get_model_loader w) = Inl e"
    using assms(1) e by (simp add: get_model_loader_fst)
  have n: "g_model_loader (snd (get_model_loader w)) = None"
    using g by (simp add: get_model_loader_snd_cache)
  have "main pressed r w = (Stopped e, snd (get_model_loader w))"
    using g by (cases "get_model_loader w") (simp add: main_def load_model_def)
  with g c n show ?thesis by blast
qed

theorem load_failure_at_startup_witness:
  "g_model_loader (initial_process (example_disk\<lparr>scaler_file := Missing\<rparr>)) = None \<and>
   artifact_unavailable (scaler_file (files (initial_process (example_disk\<lparr>scaler_file := Missing\<rparr>)))) \<and>
   fst (get_model_loader (initial_process (example_disk\<lparr>scaler_file := Missing\<rparr>)))
     = Inl (FileNotFoundError SCALER_PATH) \<and>
   fst (main True example_record (initial_process (example_disk\<lparr>scaler_file := Missing\<rparr>)))
     = Stopped (FileNotFoundError SCALER_PATH)"
proof -
  let ?w = "initial_process (example_disk\<lparr>scaler_file := Missing\<rparr>)"
  have h1: "g_model_loader ?w = None"
    by (simp add: initial_process_def)
  have u: "artifact_unavailable (scaler_file (files ?w))"
    by (simp add: initial_process_def artifact_unavailable_def)
  then have h2: "artifact_unavailable (model_file (files ?w)) \<or>
         artifact_unavailable (gender_file (files ?w)) \<or>
         artifact_unavailable (ohe_file (files ?w)) \<or>
         artifact_unavailable (scaler_file (files ?w))" by blast
  have v: "fst (get_model_loader ?w) = Inl (FileNotFoundError SCALER_PATH)"
    by (simp add: get_model_loader_fst ModelLoader_init_fst initial_process_def
        load_all_def Let_def open_file_def set_field_def logger_def load_failed_def
        example_disk_def)
  from load_failure_at_startup[OF h1 h2, of True example_record] h1 u v
  show ?thesis by auto
qed

text \<open>
  Claim C10. When a call of \<open>get_model_loader\<close> fails, the loader variable is unset
  afterwards. The next call runs the whole load again, starting with the model file: on
  an unchanged disk it fails with the same exception, and on a disk that holds all four
  artifacts it succeeds with a newly allocated object. Through any later history, the
  loader variable is either unset or names an object whose four fields are all loaded:
  the object that a failed load leaves partially filled is never the cached one.
\<close>

theorem failed_load_not_cached:
  assumes "get_model_loader w = (Inl e, w1)"
  shows "g_model_loader w1 = None \<and>
         (\<exists>ps. opened (snd (get_model_loader w1)) = opened w1 @ MODEL_PATH # ps) \<and>
         fst (get_model_loader w1) = Inl e \<and>
         (\<forall>m le oh sc.
            fst (get_model_loader
                  (w1\<lparr>files := \<lparr>model_file = Stored m, gender_file = Stored le,
                                 ohe_file = Stored oh, scaler_file = Stored sc\<rparr>\<rparr>))
              = Inr (length (heap w1))) \<and>
         (\<forall>cs. cache_complete (run cs w1))"
proof -
  note f = get_model_loader_Inl[OF assms]
  let ?blank = "\<lparr>model = None, label_encoder_gender = None,
                  one_hot_encoder = None, scaler = None\<rparr>"
  have o: "\<exists>ps. opened (snd (get_model_loader w1)) = opened w1 @ MODEL_PATH # ps"
    using f(3) by (rule get_model_loader_opened)
  have "fst (load_all (length (heap w1)) (w1\<lparr>heap := heap w1 @ [?blank]\<rparr>))
      = fst (load_all (length (heap w)) (w\<lparr>heap := heap w @ [?blank]\<rparr>))"
    by (rule load_all_fst_files) (simp add: f(4))
  moreover have "fst (ModelLoader_init w) = Inl e"
    using f(2) by simp
  then have "fst (load_all (length (heap w)) (w\<lparr>heap := heap w @ [?blank]\<rparr>)) = Some e"
    by (auto simp add: ModelLoader_init_fst split: option.splits)
  ultimately have "fst (ModelLoader_init w1) = Inl e"
    by (simp add: ModelLoader_init_fst)
  then have again: "fst (get_model_loader w1) = Inl e"
    using f(3) by (simp add: get_model_loader_fst)
  have fixed: "\<forall>m le oh sc.
            fst (get_model_loader
                  (w1\<lparr>files := \<lparr>model_file = Stored m, gender_file = Stored le,
                                 ohe_file = Stored oh, scaler_file = Stored sc\<rparr>\<rparr>))
              = Inr (length (heap w1))"
    using f(3) by (simp add: get_model_loader_fst ModelLoader_init_ok)
  have "cache_complete w1"
    using f(3) by (simp add: cache_complete_def)
  then have "\<forall>cs. cache_complete (run cs w1)"
    by (simp add: run_cache_complete)
  with f(3) o again fixed show ?thesis by blast
qed

theorem failed_load_not_cached_witness:
  "fst (get_model_loader (initial_process (example_disk\<lparr>ohe_file := Corrupt\<rparr>)))
     = Inl (DeserializationError ONE_HOT_ENCODER_PATH) \<and>
   g_model_loader (snd (get_model_loader (initial_process (example_disk\<lparr>ohe_file := Corrupt\<rparr>))))
     = None \<and>
   fst (get_model_loader
         (snd (get_model_loader (initial_process (example_disk\<lparr>ohe_file := Corrupt\<rparr>)))))
     = Inl (DeserializationError ONE_HOT_ENCODER_PATH) \<and>
   fst (get_model_loader
         (snd (get_model_loader (initial_process (example_disk\<lparr>ohe_file := Corrupt\<rparr>)))
           \<lparr>files := example_disk\<rparr>))
     = Inr 1"
proof -
  let ?w = "initial_process (example_disk\<lparr>ohe_file := Corrupt\<rparr>)"
  have v: "fst (get_model_loader ?w) = Inl (DeserializationError ONE_HOT_ENCODER_PATH)"
    by (simp add: get_model_loader_fst ModelLoader_init_fst initial_process_def
        load_all_def Let_def open_file_def set_field_def logger_def load_failed_def
        example_disk_def)
  then have h: "get_model_loader ?w =
      (Inl (DeserializationError ONE_HOT_ENCODER_PATH), snd (get_model_loader ?w))"
    by (cases "get_model_loader ?w") simp
  have "g_model_loader ?w = None"
    by (simp add: initial_process_def)
  from get_model_loader_heap_length[OF this]
  have l: "length (heap (snd (get_model_loader ?w))) = 1"
    by (simp add: initial_process_def)
  from failed_load_not_cached[OF h] v l
  show ?thesis
    by (simp add: example_disk_def)
qed

end
